theory Spec2Isabelle
  imports Main "HOL-Library.Multiset" "HOL-Library.Sublist"
begin

section \<open>Data model of the chat client (src/pages/Chat.tsx)\<close>

text \<open>
  The embedding follows the second, later version of \<open>Chat.tsx\<close> (the one with reactions,
  read receipts, editing and deletion). Strings are \<open>string\<close>; timestamps are milliseconds
  since the epoch as \<open>int\<close> (the source holds them as ISO strings and compares them as
  instants). A nullable column or an optional field is an \<open>option\<close>.
  The field \<open>id\<close> of a message is called \<open>msg_id\<close>, since \<open>id\<close> is the identity function of HOL;
  the fields of the other interfaces carry a short prefix where two interfaces share a name.
\<close>

datatype message_type = Text | Image | Call_info

record reaction =
  emoji :: string
  user_id :: string

record sender_profile =
  sp_display_name :: string
  sp_avatar_url :: "string option"

text \<open>A row of the table \<open>messages\<close>, as the database returns it.\<close>

record msg_row =
  msg_id :: string
  content :: "string option"
  image_url :: "string option"
  message_type :: message_type
  created_at :: int
  sender_id :: string
  conversation_id :: string
  reactions :: "reaction list option"
  seen_by :: "string list option"

text \<open>\<open>interface Message\<close>: a row together with the sender's profile.\<close>

record message = msg_row +
  sender_profile :: "sender_profile option"

record profile =
  profile_id :: string
  p_user_id :: string
  username :: string
  display_name :: string
  avatar_url :: "string option"
  last_seen :: "int option"

record conversation =
  conv_id :: string
  conv_name :: "string option"
  is_group :: bool
  conv_created_at :: int
  participants :: "profile list option"

record incoming_call =
  roomUrl :: string
  caller :: profile
  conversationId :: string
  callId :: "string option"

record toast =
  title :: string
  description :: string

text \<open>The file chosen in the image picker: \<open>file.name\<close>, \<open>file.type\<close>, \<open>file.size\<close> (bytes).\<close>

record image_file =
  file_name :: string
  file_type :: string
  file_size :: nat

text \<open>
  The component state of \<open>Chat\<close> (its \<open>useState\<close> cells). \<open>user\<close> holds \<open>user.id\<close> of the signed-in
  user, \<open>None\<close> when nobody is signed in. \<open>toasts\<close> is the log of the calls of \<open>toast\<close>.
  \<open>timers\<close> holds the callbacks registered with \<open>setTimeout\<close> by the call subscription and
  not yet run: the instant at which each is due and the payload it closes over.
\<close>

record client =
  user :: "string option"
  userProfile :: "profile option"
  conversations :: "conversation list"
  selectedConversation :: "string option"
  messages :: "message list"
  onlineUsers :: "string set"
  showVideoCall :: bool
  videoCallUrl :: string
  incomingCall :: "incoming_call option"
  editingMessage :: "message option"
  editContent :: string
  messageToDelete :: "message option"
  newMessage :: string
  isLoading :: bool
  toasts :: "toast list"
  timers :: "(int \<times> incoming_call) list"

text \<open>
  The hosted backend the client is bound to: the tables \<open>messages\<close> and \<open>profiles\<close>, the
  storage bucket \<open>chat-images\<close> (the names of the stored objects), the change feed of the
  table \<open>messages\<close> (what the real-time layer delivers to subscribers) and the signals sent
  on the broadcast channels \<open>calls-<user id>\<close>.
\<close>

datatype change = INSERT msg_row | UPDATE msg_row | DELETE string

datatype signal = Incoming_call incoming_call | Call_ended string string

record backend =
  messages_tbl :: "msg_row list"
  profiles_tbl :: "profile list"
  chat_images :: "string list"
  feed :: "change list"
  sent :: "(string \<times> signal) list"

section \<open>JavaScript library functions used by the source\<close>

text \<open>\<open>xs.findIndex(P)\<close>: the index of the first element satisfying \<open>P\<close>, or \<open>-1\<close>.\<close>

fun findIndex_from :: "('a \<Rightarrow> bool) \<Rightarrow> 'a list \<Rightarrow> int \<Rightarrow> int" where
  "findIndex_from P [] i = - 1"
| "findIndex_from P (x # xs) i = (if P x then i else findIndex_from P xs (i + 1))"

definition findIndex :: "('a \<Rightarrow> bool) \<Rightarrow> 'a list \<Rightarrow> int" where
  "findIndex P xs = findIndex_from P xs 0"

text \<open>\<open>xs.filter((x, i) => P x i)\<close>: filtering with access to the index.\<close>

fun filter_idx_from :: "('a \<Rightarrow> int \<Rightarrow> bool) \<Rightarrow> 'a list \<Rightarrow> int \<Rightarrow> 'a list" where
  "filter_idx_from P [] i = []"
| "filter_idx_from P (x # xs) i =
     (if P x i then x # filter_idx_from P xs (i + 1) else filter_idx_from P xs (i + 1))"

definition filter_idx :: "('a \<Rightarrow> int \<Rightarrow> bool) \<Rightarrow> 'a list \<Rightarrow> 'a list" where
  "filter_idx P xs = filter_idx_from P xs 0"

text \<open>\<open>x || []\<close> on a nullable array.\<close>

definition or_empty :: "'a list option \<Rightarrow> 'a list" where
  "or_empty x = (case x of None \<Rightarrow> [] | Some xs \<Rightarrow> xs)"

text \<open>
  \<open>!s\<close> on a nullable string: \<open>null\<close> and the empty string are falsy.
\<close>

definition falsy :: "string option \<Rightarrow> bool" where
  "falsy x = (case x of None \<Rightarrow> True | Some s \<Rightarrow> s = [])"

text \<open>
  \<open>s.trim()\<close>. A \<open>char\<close> stands for a code unit below 256; the white space and line
  terminators of JavaScript in that range are 9 to 13, 32 and 160.
\<close>

definition is_ws :: "char \<Rightarrow> bool" where
  "is_ws c = ((of_char c :: nat) \<in> {9, 10, 11, 12, 13, 32, 160})"

definition trim :: "string \<Rightarrow> string" where
  "trim s = rev (dropWhile is_ws (rev (dropWhile is_ws s)))"

text \<open>\<open>String(n)\<close> for an integer, used in template strings.\<close>

fun digits :: "nat \<Rightarrow> string" where
  "digits n = (if n < 10 then [char_of (48 + n)] else digits (n div 10) @ [char_of (48 + n mod 10)])"

declare digits.simps [simp del]

definition show_int :: "int \<Rightarrow> string" where
  "show_int i = (if i < 0 then CHR ''-'' # digits (nat (- i)) else digits (nat i))"

text \<open>\<open>name.split('.').pop()\<close>: the part of the name after its last dot.\<close>

definition fileExt_of :: "string \<Rightarrow> string" where
  "fileExt_of name = rev (takeWhile (\<lambda>c. c \<noteq> CHR ''.'') (rev name))"


section \<open>The backend's operations on the table \<open>messages\<close>\<close>

text \<open>\<open>from('messages').insert(row)\<close>: the row is appended and an INSERT change is fed.\<close>

definition insert_message :: "msg_row \<Rightarrow> backend \<Rightarrow> backend" where
  "insert_message row b =
     b\<lparr>messages_tbl := messages_tbl b @ [row], feed := feed b @ [INSERT row]\<rparr>"

text \<open>
  \<open>from('messages').update(patch).eq('id', mid)\<close>: every row whose id is \<open>mid\<close> is patched, and
  one UPDATE change per patched row is fed.
\<close>

definition update_where_id :: "string \<Rightarrow> (msg_row \<Rightarrow> msg_row) \<Rightarrow> backend \<Rightarrow> backend" where
  "update_where_id mid patch b =
     b\<lparr>messages_tbl := map (\<lambda>r. if msg_id r = mid then patch r else r) (messages_tbl b),
       feed := feed b @ map (\<lambda>r. UPDATE (patch r)) (filter (\<lambda>r. msg_id r = mid) (messages_tbl b))\<rparr>"

text \<open>\<open>from('messages').delete().eq('id', mid)\<close>: the rows are removed from the table.\<close>

definition delete_where_id :: "string \<Rightarrow> backend \<Rightarrow> backend" where
  "delete_where_id mid b =
     b\<lparr>messages_tbl := filter (\<lambda>r. msg_id r \<noteq> mid) (messages_tbl b),
       feed := feed b @ map (\<lambda>r. DELETE (msg_id r)) (filter (\<lambda>r. msg_id r = mid) (messages_tbl b))\<rparr>"

text \<open>
  A new row as the table's defaults complete it: the database supplies the id and the
  creation time; \<open>seen_by\<close> defaults to the empty array (migration 20251228033322). The
  columns the insert does not name are null; this includes \<open>reactions\<close>, whose default is
  not among the sources (the client reads null and the empty array alike).
\<close>

definition new_row ::
  "string \<Rightarrow> int \<Rightarrow> string \<Rightarrow> string \<Rightarrow> string option \<Rightarrow> string option \<Rightarrow> message_type \<Rightarrow> msg_row" where
  "new_row mid now conv uid c img ty =
     \<lparr>msg_id = mid, content = c, image_url = img, message_type = ty, created_at = now,
      sender_id = uid, conversation_id = conv, reactions = None, seen_by = Some []\<rparr>"

section \<open>The client's functions\<close>

subsection \<open>Presence\<close>

text \<open>\<open>updateUserPresence\<close> (the source's lines 826 to 836), run at the instant \<open>now\<close>.\<close>

definition updateUserPresence :: "int \<Rightarrow> client \<Rightarrow> backend \<Rightarrow> backend" where
  "updateUserPresence now c b =
     (case user c of
        None \<Rightarrow> b
      | Some uid \<Rightarrow>
          b\<lparr>profiles_tbl :=
              map (\<lambda>p. if p_user_id p = uid then p\<lparr>last_seen := Some now\<rparr> else p) (profiles_tbl b)\<rparr>)"

text \<open>
  \<open>fetchOnlineUsers\<close> (lines 888 to 899), run at the instant \<open>now\<close>: \<open>gte('last_seen', t)\<close>
  selects the profiles whose \<open>last_seen\<close> is not null and not before \<open>t\<close>. When the query
  yields no data (\<open>ok\<close> is false), the set becomes empty.
\<close>

definition fetchOnlineUsers :: "bool \<Rightarrow> int \<Rightarrow> backend \<Rightarrow> client \<Rightarrow> client" where
  "fetchOnlineUsers ok now b c =
     (let fiveMinutesAgo = now - 5 * 60 * 1000;
          data = filter (\<lambda>p. case last_seen p of None \<Rightarrow> False | Some t \<Rightarrow> fiveMinutesAgo \<le> t)
                   (profiles_tbl b)
      in c\<lparr>onlineUsers := (if ok then set (map p_user_id data) else {})\<rparr>)"

text \<open>\<open>isUserOnline\<close> (line 1270).\<close>

definition isUserOnline :: "client \<Rightarrow> string \<Rightarrow> bool" where
  "isUserOnline c userId = (userId \<in> onlineUsers c)"

subsection \<open>Read receipts\<close>

text \<open>
  \<open>markMessagesAsSeen\<close> (lines 1001 to 1027). The query result \<open>unreadMessages\<close> is read
  once; the loop then updates the rows one after the other, each from the \<open>seen_by\<close> the
  query returned. An update the backend refuses (\<open>ok mid\<close> false) leaves the table as it
  is; the source does not look at the outcome of the updates.

  The source awaits the query and each update, and other clients write to the same
  table. In \<open>markMessagesAsSeen_at\<close>, \<open>bq\<close> is the backend when the query is answered and
  \<open>b\<close> the backend the updates reach: what other clients wrote in between is the
  difference of the two. (The loop updates each id once and by id, so a write of another
  client to a row counts as made before the loop when it precedes the update of that
  row.) \<open>markMessagesAsSeen\<close> is the run in which nobody else writes in between.
\<close>

fun mark_loop :: "(string \<Rightarrow> bool) \<Rightarrow> string \<Rightarrow> msg_row list \<Rightarrow> backend \<Rightarrow> backend" where
  "mark_loop ok uid [] b = b"
| "mark_loop ok uid (msg # rest) b =
     (let currentSeenBy = or_empty (seen_by msg)
      in mark_loop ok uid rest
           (if uid \<notin> set currentSeenBy \<and> ok (msg_id msg)
            then update_where_id (msg_id msg) (\<lambda>r. r\<lparr>seen_by := Some (currentSeenBy @ [uid])\<rparr>) b
            else b))"

definition markMessagesAsSeen_at ::
  "bool \<Rightarrow> (string \<Rightarrow> bool) \<Rightarrow> client \<Rightarrow> backend \<Rightarrow> backend \<Rightarrow> backend" where
  "markMessagesAsSeen_at select_ok ok c bq b =
     (case user c of
        None \<Rightarrow> b
      | Some uid \<Rightarrow>
          if falsy (selectedConversation c) then b
          else if \<not> select_ok then b
          else
            let unreadMessages =
                  filter (\<lambda>r. Some (conversation_id r) = selectedConversation c \<and> sender_id r \<noteq> uid)
                    (messages_tbl bq)
            in mark_loop ok uid unreadMessages b)"

definition markMessagesAsSeen :: "bool \<Rightarrow> (string \<Rightarrow> bool) \<Rightarrow> client \<Rightarrow> backend \<Rightarrow> backend" where
  "markMessagesAsSeen select_ok ok c b = markMessagesAsSeen_at select_ok ok c b b"

subsection \<open>Reactions\<close>

text \<open>
  The computation of \<open>newReactions\<close> in \<open>addReaction\<close> (lines 1037 to 1049), for the acting
  user \<open>uid\<close>.
\<close>

definition newReactions_of :: "string \<Rightarrow> string \<Rightarrow> reaction list \<Rightarrow> reaction list" where
  "newReactions_of uid em currentReactions =
     (let existingReactionIndex =
            findIndex (\<lambda>r. user_id r = uid \<and> emoji r = em) currentReactions
      in if existingReactionIndex > - 1
         then filter_idx (\<lambda>_ i. i \<noteq> existingReactionIndex) currentReactions
         else currentReactions @ [\<lparr>emoji = em, user_id = uid\<rparr>])"

text \<open>
  \<open>addReaction\<close> (lines 1030 to 1065). The message is looked up in the component's own
  list; \<open>ok\<close> tells whether the update of the row succeeds. When it fails, the source
  throws before \<open>setMessages\<close>, so neither side changes.

  The function reads \<open>messages\<close> as the render that created the handler had it, and
  writes with \<open>setMessages(prev => ...)\<close> to the list as it is then. \<open>addReaction_from\<close> takes
  the list of that render as \<open>rendered\<close>; \<open>addReaction\<close> is the call from a render that shows
  the current list.
\<close>

definition addReaction_from ::
  "message list \<Rightarrow> bool \<Rightarrow> string \<Rightarrow> string \<Rightarrow> client \<times> backend \<Rightarrow> client \<times> backend" where
  "addReaction_from rendered ok messageId em w =
     (let c = fst w; b = snd w in
      case user c of
        None \<Rightarrow> w
      | Some uid \<Rightarrow>
          (case find (\<lambda>m. msg_id m = messageId) rendered of
             None \<Rightarrow> w
           | Some message \<Rightarrow>
               let currentReactions = or_empty (reactions message);
                   newReactions = newReactions_of uid em currentReactions
               in if \<not> ok then w
                  else (c\<lparr>messages :=
                            map (\<lambda>m. if msg_id m = messageId then m\<lparr>reactions := Some newReactions\<rparr> else m)
                              (messages c)\<rparr>,
                        update_where_id messageId (\<lambda>r. r\<lparr>reactions := Some newReactions\<rparr>) b)))"

definition addReaction :: "bool \<Rightarrow> string \<Rightarrow> string \<Rightarrow> client \<times> backend \<Rightarrow> client \<times> backend" where
  "addReaction ok messageId em w =
     (let c = fst w; b = snd w in
      case user c of
        None \<Rightarrow> w
      | Some uid \<Rightarrow>
          (case find (\<lambda>m. msg_id m = messageId) (messages c) of
             None \<Rightarrow> w
           | Some message \<Rightarrow>
               let currentReactions = or_empty (reactions message);
                   newReactions = newReactions_of uid em currentReactions
               in if \<not> ok then w
                  else (c\<lparr>messages :=
                            map (\<lambda>m. if msg_id m = messageId then m\<lparr>reactions := Some newReactions\<rparr> else m)
                              (messages c)\<rparr>,
                        update_where_id messageId (\<lambda>r. r\<lparr>reactions := Some newReactions\<rparr>) b)))"


subsection \<open>Loading messages and the live subscription\<close>

text \<open>
  \<open>fetchMessages\<close> (lines 929 to 947): the rows of the selected conversation in the order
  of \<open>created_at\<close> (rows of the same instant in the order of the table), each with the
  defaults for \<open>reactions\<close> and \<open>seen_by\<close> and the sender's profile. When the query fails
  (\<open>ok\<close> false) the list is left as it is.
\<close>

definition profile_of :: "profile list \<Rightarrow> string \<Rightarrow> sender_profile option" where
  "profile_of ps uid =
     map_option (\<lambda>p. \<lparr>sp_display_name = display_name p, sp_avatar_url = avatar_url p\<rparr>)
       (find (\<lambda>p. p_user_id p = uid) ps)"

definition with_profile :: "msg_row \<Rightarrow> sender_profile option \<Rightarrow> message" where
  "with_profile r p =
     \<lparr>msg_id = msg_id r, content = content r, image_url = image_url r,
      message_type = message_type r, created_at = created_at r, sender_id = sender_id r,
      conversation_id = conversation_id r, reactions = Some (or_empty (reactions r)),
      seen_by = Some (or_empty (seen_by r)), sender_profile = p\<rparr>"

definition fetchMessages :: "bool \<Rightarrow> backend \<Rightarrow> client \<Rightarrow> client" where
  "fetchMessages ok b c =
     (if falsy (selectedConversation c) then c
      else if \<not> ok then c
      else
        let messagesData =
              sort_key created_at
                (filter (\<lambda>r. Some (conversation_id r) = selectedConversation c) (messages_tbl b))
        in c\<lparr>messages := map (\<lambda>r. with_profile r (profile_of (profiles_tbl b) (sender_id r))) messagesData\<rparr>)"

text \<open>
  The three handlers of \<open>subscribeToMessages\<close> (lines 1067 to 1120), each as the function
  it passes to \<open>setMessages\<close>. \<open>profileData\<close> is the outcome of the profile query of the
  INSERT handler. The desktop notification that handler raises for a message of
  somebody else is outside the state modelled here.
\<close>

definition on_insert :: "msg_row \<Rightarrow> sender_profile option \<Rightarrow> message list \<Rightarrow> message list" where
  "on_insert newMessagePayload profileData prevMessages =
     (let messageWithProfile = with_profile newMessagePayload profileData;
          exists_msg = (\<exists>msg \<in> set prevMessages. msg_id msg = msg_id messageWithProfile)
      in if exists_msg then prevMessages else prevMessages @ [messageWithProfile])"

definition on_update :: "msg_row \<Rightarrow> message list \<Rightarrow> message list" where
  "on_update updatedMessage prevMessages =
     map (\<lambda>msg. if msg_id msg = msg_id updatedMessage
                then msg\<lparr>content := content updatedMessage,
                         reactions := Some (or_empty (reactions updatedMessage)),
                         seen_by := Some (or_empty (seen_by updatedMessage))\<rparr>
                else msg) prevMessages"

definition on_delete :: "string \<Rightarrow> message list \<Rightarrow> message list" where
  "on_delete deleted_id prevMessages = filter (\<lambda>msg. msg_id msg \<noteq> deleted_id) prevMessages"

text \<open>
  A change of the feed as the subscription of the selected conversation handles it. The
  profile query of the INSERT handler is answered from the table \<open>profiles\<close>.
\<close>

fun handle_change :: "profile list \<Rightarrow> change \<Rightarrow> message list \<Rightarrow> message list" where
  "handle_change ps (INSERT r) ms = on_insert r (profile_of ps (sender_id r)) ms"
| "handle_change ps (UPDATE r) ms = on_update r ms"
| "handle_change ps (DELETE i) ms = on_delete i ms"

subsection \<open>Editing and deleting\<close>

text \<open>\<open>saveEditMessage\<close> (lines 1133 to 1151); \<open>cancelEdit\<close> clears the two editing cells.\<close>

definition cancelEdit :: "client \<Rightarrow> client" where
  "cancelEdit c = c\<lparr>editingMessage := None, editContent := []\<rparr>"

definition saveEditMessage :: "bool \<Rightarrow> client \<times> backend \<Rightarrow> client \<times> backend" where
  "saveEditMessage ok w =
     (let c = fst w; b = snd w in
      case editingMessage c of
        None \<Rightarrow> w
      | Some em \<Rightarrow>
          if trim (editContent c) = [] then w
          else if \<not> ok then w
          else (cancelEdit
                  (c\<lparr>messages :=
                       map (\<lambda>msg. if msg_id msg = msg_id em
                                  then msg\<lparr>content := Some (trim (editContent c))\<rparr> else msg)
                         (messages c)\<rparr>),
                update_where_id (msg_id em) (\<lambda>r. r\<lparr>content := Some (trim (editContent c))\<rparr>) b))"

text \<open>\<open>confirmDeleteMessage\<close> (lines 1154 to 1170).\<close>

definition confirmDeleteMessage :: "bool \<Rightarrow> client \<times> backend \<Rightarrow> client \<times> backend" where
  "confirmDeleteMessage ok w =
     (let c = fst w; b = snd w in
      case messageToDelete c of
        None \<Rightarrow> w
      | Some md \<Rightarrow>
          if \<not> ok then w
          else (c\<lparr>messages := filter (\<lambda>msg. msg_id msg \<noteq> msg_id md) (messages c),
                  messageToDelete := None\<rparr>,
                delete_where_id (msg_id md) b))"

subsection \<open>Sending\<close>

text \<open>
  \<open>sendMessage\<close> (lines 1172 to 1193). \<open>mid\<close> and \<open>now\<close> are the id and the instant the
  database gives the new row; \<open>ok\<close> tells whether the insert succeeds. The typing signal
  it stops is not part of the model.
\<close>

definition sendMessage :: "bool \<Rightarrow> string \<Rightarrow> int \<Rightarrow> client \<times> backend \<Rightarrow> client \<times> backend" where
  "sendMessage ok mid now w =
     (let c = fst w; b = snd w in
      case user c of
        None \<Rightarrow> w
      | Some uid \<Rightarrow>
          (case selectedConversation c of
             None \<Rightarrow> w
           | Some conv \<Rightarrow>
               if trim (newMessage c) = [] \<or> conv = [] then w
               else
                 let b1 = updateUserPresence now c b
                 in if \<not> ok then (c\<lparr>isLoading := False\<rparr>, b1)
                    else (c\<lparr>newMessage := [], isLoading := False\<rparr>,
                          insert_message (new_row mid now conv uid (Some (newMessage c)) None Text) b1)))"

text \<open>
  \<open>uploadImage\<close> (lines 1195 to 1223). \<open>f\<close> is \<open>e.target.files?.[0]\<close>; \<open>publicUrl\<close> is the
  storage service's \<open>getPublicUrl\<close>; \<open>upload_ok\<close> and \<open>insert_ok\<close> tell whether the upload and
  the insert succeed. One instant \<open>now\<close> stands for the clock readings of the call.
\<close>

definition uploadImage ::
  "bool \<Rightarrow> bool \<Rightarrow> (string \<Rightarrow> string) \<Rightarrow> string \<Rightarrow> int \<Rightarrow> image_file option \<Rightarrow>
   client \<times> backend \<Rightarrow> client \<times> backend" where
  "uploadImage upload_ok insert_ok publicUrl mid now f w =
     (let c = fst w; b = snd w in
      case f of
        None \<Rightarrow> w
      | Some fl \<Rightarrow>
          (case user c of
             None \<Rightarrow> w
           | Some uid \<Rightarrow>
               (case selectedConversation c of
                  None \<Rightarrow> w
                | Some conv \<Rightarrow>
                    if conv = [] then w
                    else if \<not> prefix ''image/'' (file_type fl) then w
                    else if file_size fl > 10 * 1024 * 1024 then w
                    else
                      let b1 = updateUserPresence now c b;
                          fileExt = fileExt_of (file_name fl);
                          fileName = uid @ ''/'' @ show_int now @ ''.'' @ fileExt
                      in if \<not> upload_ok then (c\<lparr>isLoading := False\<rparr>, b1)
                         else
                           let b2 = b1\<lparr>chat_images := chat_images b1 @ [fileName]\<rparr>
                           in if \<not> insert_ok then (c\<lparr>isLoading := False\<rparr>, b2)
                              else (c\<lparr>isLoading := False\<rparr>,
                                    insert_message
                                      (new_row mid now conv uid None (Some (publicUrl fileName)) Image) b2))))"


subsection \<open>Calls\<close>

text \<open>\<open>getCurrentConversation\<close> (line 1268) and the \<open>otherParticipants\<close> of the call functions.\<close>

definition getCurrentConversation :: "client \<Rightarrow> conversation option" where
  "getCurrentConversation c = find (\<lambda>cv. Some (conv_id cv) = selectedConversation c) (conversations c)"

definition otherParticipants_of :: "client \<Rightarrow> string \<Rightarrow> profile list option" where
  "otherParticipants_of c uid =
     (case getCurrentConversation c of
        None \<Rightarrow> None
      | Some cv \<Rightarrow> map_option (filter (\<lambda>p. p_user_id p \<noteq> uid)) (participants cv))"

text \<open>
  \<open>startVideoCall\<close> (lines 1272 to 1302). \<open>roomName\<close> and \<open>cid\<close> are the two names the source
  draws from the clock and the random generator; \<open>mid\<close>, \<open>now\<close> and \<open>ok\<close> belong to the insert
  of the \<open>call_info\<close> message, whose outcome the source does not look at.
\<close>

definition startVideoCall ::
  "string \<Rightarrow> string \<Rightarrow> bool \<Rightarrow> string \<Rightarrow> int \<Rightarrow> client \<times> backend \<Rightarrow> client \<times> backend" where
  "startVideoCall roomName cid ok mid now w =
     (let c = fst w; b = snd w in
      case (selectedConversation c, userProfile c, user c) of
        (Some conv, Some up, Some uid) \<Rightarrow>
          if conv = [] then w
          else
            (case otherParticipants_of c uid of
               None \<Rightarrow> w
             | Some others \<Rightarrow>
                 if others = [] then w
                 else
                   let jitsiRoomUrl = ''https://meet.jit.si/'' @ roomName;
                       payload = \<lparr>roomUrl = jitsiRoomUrl, caller = up, conversationId = conv,
                                  callId = Some cid\<rparr>;
                       b1 = b\<lparr>sent := sent b @
                                 map (\<lambda>p. (''calls-'' @ p_user_id p, Incoming_call payload)) others\<rparr>
                   in (c\<lparr>videoCallUrl := jitsiRoomUrl, showVideoCall := True\<rparr>,
                       if ok
                       then insert_message
                              (new_row mid now conv uid (Some ''Started a video call.'') None Call_info) b1
                       else b1))
      | _ \<Rightarrow> w)"

text \<open>
  The handlers of \<open>subscribeToCalls\<close> (lines 851 to 885). The handler of \<open>incoming_call\<close>, run
  at the instant \<open>now\<close>, registers a callback due 30000 ms later; \<open>timer_callback\<close> is that
  callback (lines 861 to 871). The title of the toast is the source's without its
  telephone sign.
\<close>

definition missed_call :: "incoming_call \<Rightarrow> toast" where
  "missed_call payload =
     \<lparr>title = ''Missed Call'',
      description = ''You missed a call from '' @ display_name (caller payload)\<rparr>"


definition timer_callback :: "incoming_call \<Rightarrow> client \<Rightarrow> client" where
  "timer_callback payload c =
     (case incomingCall c of
        None \<Rightarrow> c
      | Some prev \<Rightarrow>
          if callId prev = callId payload
          then c\<lparr>toasts := toasts c @ [missed_call payload], incomingCall := None\<rparr>
          else c)"


text \<open>\<open>acceptCall\<close> (lines 1304 to 1311), \<open>declineCall\<close> (1313 to 1315), \<open>endCall\<close> (1317 to 1339).\<close>

definition acceptCall :: "client \<Rightarrow> client" where
  "acceptCall c =
     (case incomingCall c of
        None \<Rightarrow> c
      | Some ic \<Rightarrow>
          c\<lparr>videoCallUrl := roomUrl ic, selectedConversation := Some (conversationId ic),
            showVideoCall := True, incomingCall := None\<rparr>)"

definition declineCall :: "client \<Rightarrow> client" where
  "declineCall c = c\<lparr>incomingCall := None\<rparr>"

definition endCall :: "client \<times> backend \<Rightarrow> client \<times> backend" where
  "endCall w =
     (let c = fst w; b = snd w in
      case (selectedConversation c, user c) of
        (Some conv, Some uid) \<Rightarrow>
          if conv = [] then w
          else
            (c\<lparr>showVideoCall := False, videoCallUrl := [], incomingCall := None\<rparr>,
             b\<lparr>sent := sent b @
                  map (\<lambda>p. (''calls-'' @ p_user_id p, Call_ended uid conv))
                    (or_empty (otherParticipants_of c uid))\<rparr>)
      | _ \<Rightarrow> w)"

text \<open>
  Time: \<open>advance now\<close> runs, in the order of their registration, the callbacks that are due
  at \<open>now\<close>, and keeps the others. A timed event is handled after the callbacks
  due at its instant.
\<close>

definition advance :: "int \<Rightarrow> client \<Rightarrow> client" where
  "advance now c =
     fold (\<lambda>tp. timer_callback (snd tp)) (filter (\<lambda>tp. fst tp \<le> now) (timers c))
       (c\<lparr>timers := filter (\<lambda>tp. \<not> fst tp \<le> now) (timers c)\<rparr>)"





subsection \<open>The user's actions\<close>

text \<open>
  What the user of one client can do to the component state and the backend, each
  action with the outcomes of the backend calls it makes. The functions that take the
  component state only cannot send or store anything: the backend is passed through.
  Here an action runs with nothing written by anybody else meanwhile, and from a render
  that shows the current list; \<open>markMessagesAsSeen_at\<close> and \<open>addReaction_from\<close> are the runs
  without these two conditions.
\<close>

datatype action =
    Send_message bool string int
  | Upload_image bool bool string int "image_file option"
  | Mark_seen bool "string \<Rightarrow> bool"
  | Add_reaction bool string string
  | Save_edit bool
  | Confirm_delete bool
  | Start_video_call string string bool string int
  | Accept_call
  | Decline_call
  | End_call
  | Update_presence int

fun perform :: "(string \<Rightarrow> string) \<Rightarrow> action \<Rightarrow> client \<times> backend \<Rightarrow> client \<times> backend" where
  "perform url (Send_message ok mid now) w = sendMessage ok mid now w"
| "perform url (Upload_image upload_ok insert_ok mid now f) w =
     uploadImage upload_ok insert_ok url mid now f w"
| "perform url (Mark_seen select_ok ok) w = (fst w, markMessagesAsSeen select_ok ok (fst w) (snd w))"
| "perform url (Add_reaction ok messageId em) w = addReaction ok messageId em w"
| "perform url (Save_edit ok) w = saveEditMessage ok w"
| "perform url (Confirm_delete ok) w = confirmDeleteMessage ok w"
| "perform url (Start_video_call roomName cid ok mid now) w = startVideoCall roomName cid ok mid now w"
| "perform url Accept_call w = (acceptCall (fst w), snd w)"
| "perform url Decline_call w = (declineCall (fst w), snd w)"
| "perform url End_call w = endCall w"
| "perform url (Update_presence now) w = (fst w, updateUserPresence now (fst w) (snd w))"


section \<open>Properties stated about the code\<close>


section \<open>Example states\<close>

text \<open>
  Alice and Bob share the direct conversation \<open>x\<close>. Alice has sent the message \<open>m1\<close>; Bob
  has reacted to it with \<open>like\<close>, then Alice with \<open>heart\<close>. Bob's client has the conversation
  open.
\<close>

definition alice :: profile where
  "alice = \<lparr>profile_id = ''p1'', p_user_id = ''alice'', username = ''alice'',
            display_name = ''Alice'', avatar_url = None, last_seen = Some 0\<rparr>"

definition bob :: profile where
  "bob = \<lparr>profile_id = ''p2'', p_user_id = ''bob'', username = ''bob'',
          display_name = ''Bob'', avatar_url = None, last_seen = None\<rparr>"

definition conv_x :: conversation where
  "conv_x = \<lparr>conv_id = ''x'', conv_name = None, is_group = False, conv_created_at = 0,
             participants = Some [alice, bob]\<rparr>"

definition row_m1 :: msg_row where
  "row_m1 = \<lparr>msg_id = ''m1'', content = Some ''hi'', image_url = None, message_type = Text,
             created_at = 1, sender_id = ''alice'', conversation_id = ''x'',
             reactions = Some [\<lparr>emoji = ''like'', user_id = ''bob''\<rparr>,
                               \<lparr>emoji = ''heart'', user_id = ''alice''\<rparr>],
             seen_by = Some []\<rparr>"

text \<open>The component state as \<open>useState\<close> initialises it, for the signed-in user \<open>u\<close>.\<close>

definition init_client :: "string option \<Rightarrow> client" where
  "init_client u =
     \<lparr>user = u, userProfile = None, conversations = [], selectedConversation = None,
      messages = [], onlineUsers = {}, showVideoCall = False, videoCallUrl = [],
      incomingCall = None, editingMessage = None, editContent = [], messageToDelete = None,
      newMessage = [], isLoading = False, toasts = [], timers = []\<rparr>"

definition backend_x :: backend where
  "backend_x = \<lparr>messages_tbl = [row_m1], profiles_tbl = [alice, bob], chat_images = [],
                feed = [], sent = []\<rparr>"

definition bob_client :: client where
  "bob_client = (init_client (Some ''bob''))
     \<lparr>userProfile := Some bob, conversations := [conv_x], selectedConversation := Some ''x'',
      messages := [with_profile row_m1 (profile_of [alice, bob] ''alice'')]\<rparr>"

text \<open>Bob has answered with the message \<open>m2\<close>.\<close>

definition row_m2 :: msg_row where
  "row_m2 = \<lparr>msg_id = ''m2'', content = Some ''hello'', image_url = None, message_type = Text,
             created_at = 2, sender_id = ''bob'', conversation_id = ''x'',
             reactions = None, seen_by = Some []\<rparr>"

definition backend_x2 :: backend where
  "backend_x2 = backend_x\<lparr>messages_tbl := [row_m1, row_m2]\<rparr>"

text \<open>Bob's client with both messages loaded.\<close>

definition bob_client2 :: client where
  "bob_client2 = bob_client
     \<lparr>messages := map (\<lambda>r. with_profile r (profile_of [alice, bob] (sender_id r))) [row_m1, row_m2]\<rparr>"

text \<open>
  Alice rings Bob from the conversation \<open>x\<close> (call \<open>c1\<close>); \<open>bob_ringing\<close> is Bob's client with
  that call pending, \<open>alice_calling\<close> is Alice's client in the call.
\<close>

definition call_c1 :: incoming_call where
  "call_c1 = \<lparr>roomUrl = ''https://meet.jit.si/r1'', caller = alice, conversationId = ''x'',
              callId = Some ''c1''\<rparr>"

definition bob_ringing :: client where
  "bob_ringing = bob_client\<lparr>incomingCall := Some call_c1\<rparr>"

definition alice_calling :: client where
  "alice_calling = (init_client (Some ''alice''))
     \<lparr>userProfile := Some alice, conversations := [conv_x], selectedConversation := Some ''x'',
      showVideoCall := True, videoCallUrl := ''https://meet.jit.si/r1''\<rparr>"

text \<open>An image of 11 MiB, one of 1 MiB and a text file.\<close>

definition big_png :: image_file where
  "big_png = \<lparr>file_name = ''big.png'', file_type = ''image/png'', file_size = 11 * 1024 * 1024\<rparr>"

definition small_png :: image_file where
  "small_png = \<lparr>file_name = ''cat.small.png'', file_type = ''image/png'', file_size = 1024 * 1024\<rparr>"

definition notes_txt :: image_file where
  "notes_txt = \<lparr>file_name = ''notes.txt'', file_type = ''text/plain'', file_size = 12\<rparr>"

text \<open>Carol rings Bob as well (call \<open>c2\<close>).\<close>

definition carol :: profile where
  "carol = \<lparr>profile_id = ''p3'', p_user_id = ''carol'', username = ''carol'',
            display_name = ''Carol'', avatar_url = None, last_seen = None\<rparr>"

definition call_c2 :: incoming_call where
  "call_c2 = \<lparr>roomUrl = ''https://meet.jit.si/r2'', caller = carol, conversationId = ''y'',
              callId = Some ''c2''\<rparr>"

text \<open>
  The group conversation \<open>g\<close> of Alice, Bob and Carol, with Alice's message \<open>g1\<close>, to which
  Bob and Alice have reacted; Bob's and Carol's clients have it open and loaded.
\<close>

definition conv_g :: conversation where
  "conv_g = \<lparr>conv_id = ''g'', conv_name = Some ''Friends'', is_group = True, conv_created_at = 0,
             participants = Some [alice, bob, carol]\<rparr>"

definition row_g1 :: msg_row where
  "row_g1 = \<lparr>msg_id = ''g1'', content = Some ''hi all'', image_url = None, message_type = Text,
             created_at = 1, sender_id = ''alice'', conversation_id = ''g'',
             reactions = Some [\<lparr>emoji = ''like'', user_id = ''bob''\<rparr>,
                               \<lparr>emoji = ''heart'', user_id = ''alice''\<rparr>],
             seen_by = Some []\<rparr>"

definition backend_g :: backend where
  "backend_g = \<lparr>messages_tbl = [row_g1], profiles_tbl = [alice, bob, carol], chat_images = [],
                feed = [], sent = []\<rparr>"

definition bob_in_g :: client where
  "bob_in_g = (init_client (Some ''bob''))
     \<lparr>userProfile := Some bob, conversations := [conv_g], selectedConversation := Some ''g'',
      messages := [with_profile row_g1 (profile_of [alice, bob, carol] ''alice'')]\<rparr>"

definition carol_in_g :: client where
  "carol_in_g = (init_client (Some ''carol''))
     \<lparr>userProfile := Some carol, conversations := [conv_g], selectedConversation := Some ''g'',
      messages := [with_profile row_g1 (profile_of [alice, bob, carol] ''alice'')]\<rparr>"

text \<open>The backend after Carol has opened the conversation \<open>g\<close>.\<close>

definition backend_g_seen :: backend where
  "backend_g_seen = backend_g\<lparr>messages_tbl := [row_g1\<lparr>seen_by := Some [''carol'']\<rparr>]\<rparr>"

section \<open>Auxiliary facts\<close>

subsection \<open>The array functions\<close>

lemma findIndex_from_none: "(\<forall>x\<in>set xs. \<not> P x) \<Longrightarrow> findIndex_from P xs i = - 1"
  by (induction xs arbitrary: i) auto

lemma findIndex_from_some: "\<exists>x\<in>set xs. P x \<Longrightarrow> i \<le> findIndex_from P xs i"
proof (induction xs arbitrary: i)
  case Nil
  then show ?case by simp
next
  case (Cons a xs)
  show ?case
  proof (cases "P a")
    case True
    then show ?thesis by simp
  next
    case False
    with Cons.prems have "\<exists>x\<in>set xs. P x" by simp
    then have "i + 1 \<le> findIndex_from P xs (i + 1)" by (rule Cons.IH)
    with False show ?thesis by simp
  qed
qed

lemma filter_idx_from_all: "k < i \<Longrightarrow> filter_idx_from (\<lambda>_ j. j \<noteq> k) xs i = xs"
  by (induction xs arbitrary: i) auto

lemma filter_idx_from_remove1:
  "r \<in> set xs \<Longrightarrow>
   filter_idx_from (\<lambda>_ j. j \<noteq> findIndex_from (\<lambda>x. x = r) xs i) xs i = remove1 r xs"
proof (induction xs arbitrary: i)
  case Nil
  then show ?case by simp
next
  case (Cons a xs)
  show ?case
  proof (cases "a = r")
    case True
    then show ?thesis by (simp add: filter_idx_from_all)
  next
    case False
    with Cons.prems have mem: "r \<in> set xs" by simp
    then have "i + 1 \<le> findIndex_from (\<lambda>x. x = r) xs (i + 1)"
      by (intro findIndex_from_some) blast
    then have "i \<noteq> findIndex_from (\<lambda>x. x = r) xs (i + 1)" by simp
    with False Cons.IH [OF mem, of "i + 1"] show ?thesis by simp
  qed
qed

lemma map_msg_id_upd:
  "(\<And>x. msg_id (f x) = msg_id x) \<Longrightarrow> map msg_id (map f xs) = map msg_id xs"
  by simp

lemma find_msg_id:
  "distinct (map msg_id ms) \<Longrightarrow> m \<in> set ms \<Longrightarrow> find (\<lambda>x. msg_id x = msg_id m) ms = Some m"
  by (induction ms) (auto simp: image_iff)

subsection \<open>Reactions\<close>

text \<open>
  A reaction is its pair of emoji and user, so the toggle removes the first occurrence
  of the pair when there is one and appends the pair otherwise.
\<close>

lemma reaction_eq: "(user_id r = uid \<and> emoji r = em) = (r = \<lparr>emoji = em, user_id = uid\<rparr>)"
  by (cases r) auto

lemma newReactions_of_eq:
  "newReactions_of uid em rs =
     (if \<lparr>emoji = em, user_id = uid\<rparr> \<in> set rs then remove1 \<lparr>emoji = em, user_id = uid\<rparr> rs
      else rs @ [\<lparr>emoji = em, user_id = uid\<rparr>])"
proof (cases "\<lparr>emoji = em, user_id = uid\<rparr> \<in> set rs")
  case True
  then have "0 \<le> findIndex_from (\<lambda>x. x = \<lparr>emoji = em, user_id = uid\<rparr>) rs 0"
    by (intro findIndex_from_some) blast
  with True show ?thesis
    by (simp add: newReactions_of_def findIndex_def filter_idx_def reaction_eq filter_idx_from_remove1)
next
  case False
  then have "findIndex_from (\<lambda>x. x = \<lparr>emoji = em, user_id = uid\<rparr>) rs 0 = - 1"
    by (intro findIndex_from_none) blast
  with False show ?thesis
    by (simp add: newReactions_of_def findIndex_def reaction_eq)
qed

lemma newReactions_of_twice:
  "distinct rs \<Longrightarrow>
   newReactions_of uid em (newReactions_of uid em rs) =
     (if \<lparr>emoji = em, user_id = uid\<rparr> \<in> set rs
      then remove1 \<lparr>emoji = em, user_id = uid\<rparr> rs @ [\<lparr>emoji = em, user_id = uid\<rparr>] else rs)"
  by (simp add: newReactions_of_eq remove1_append)

lemma newReactions_of_twice_mset:
  "distinct rs \<Longrightarrow> mset (newReactions_of uid em (newReactions_of uid em rs)) = mset rs"
  by (simp add: newReactions_of_twice)

lemma newReactions_of_distinct: "distinct rs \<Longrightarrow> distinct (newReactions_of uid em rs)"
  by (simp add: newReactions_of_eq)

text \<open>
  A list that holds the entry twice (which no sequence of toggles builds from the empty
  list) loses both with two toggles.
\<close>

lemma newReactions_of_twice_repeated:
  "newReactions_of uid em
     (newReactions_of uid em [\<lparr>emoji = em, user_id = uid\<rparr>, \<lparr>emoji = em, user_id = uid\<rparr>]) = []"
  by (simp add: newReactions_of_eq)

lemmas example_defs =
  alice_def bob_def conv_x_def row_m1_def row_m2_def init_client_def backend_x_def backend_x2_def
  bob_client_def bob_client2_def with_profile_def profile_of_def or_empty_def
  call_c1_def bob_ringing_def alice_calling_def big_png_def small_png_def notes_txt_def
  carol_def call_c2_def conv_g_def row_g1_def backend_g_def bob_in_g_def carol_in_g_def backend_g_seen_def

section \<open>The claims\<close>

subsection \<open>C2 and C3: read receipts\<close>

text \<open>
  The loop of \<open>markMessagesAsSeen\<close> in closed form, for the run without a write of
  somebody else in between. With ids that identify the rows (the primary key of the
  table), the update of one row of the query result touches that row only, so each row of
  the result is still as the query returned it when its turn comes.
\<close>

lemma update_where_id_tbl [simp]:
  "messages_tbl (update_where_id mid patch b) =
     map (\<lambda>r. if msg_id r = mid then patch r else r) (messages_tbl b)"
  by (simp add: update_where_id_def)










text \<open>What each function does to the table \<open>messages\<close>.\<close>

lemma tbl_updateUserPresence [simp]: "messages_tbl (updateUserPresence now c b) = messages_tbl b"
  by (simp add: updateUserPresence_def split: option.splits)

lemma tbl_insert_message [simp]: "messages_tbl (insert_message row b) = messages_tbl b @ [row]"
  by (simp add: insert_message_def)

lemma tbl_delete_where_id [simp]:
  "messages_tbl (delete_where_id mid b) = filter (\<lambda>r. msg_id r \<noteq> mid) (messages_tbl b)"
  by (simp add: delete_where_id_def)












lemma or_empty_simps [simp]: "or_empty None = []" "or_empty (Some xs) = xs"
  by (simp_all add: or_empty_def)













subsection \<open>C1: toggling a reaction twice\<close>

lemma addReaction_from_current:
  "addReaction_from (messages (fst w)) ok mid em w = addReaction ok mid em w"
  by (simp add: addReaction_from_def addReaction_def)

lemma addReaction_from_ok:
  "user c = Some uid \<Longrightarrow> find (\<lambda>x. msg_id x = mid) rendered = Some m \<Longrightarrow>
   addReaction_from rendered True mid em (c, b) =
     (c\<lparr>messages := map (\<lambda>x. if msg_id x = mid
                 then x\<lparr>reactions := Some (newReactions_of uid em (or_empty (reactions m)))\<rparr>
                 else x) (messages c)\<rparr>,
      update_where_id mid
        (\<lambda>r. r\<lparr>reactions := Some (newReactions_of uid em (or_empty (reactions m)))\<rparr>) b)"
  by (simp add: addReaction_from_def Let_def)

lemma upd_twice:
  "map (\<lambda>x. if msg_id x = mid then x\<lparr>reactions := Some b\<rparr> else x)
     (map (\<lambda>x. if msg_id x = mid then x\<lparr>reactions := Some a\<rparr> else x) xs) =
   map (\<lambda>x. if msg_id x = mid then x\<lparr>reactions := Some b\<rparr> else x) xs"
  by (induction xs) simp_all

lemma addReaction_from_twice:
  assumes u: "user c = Some uid"
    and d: "distinct (map msg_id (messages c))"
    and m: "m \<in> set (messages c)"
  shows "addReaction_from (messages c) True (msg_id m) em (c, b) =
           (c\<lparr>messages := map (\<lambda>x. if msg_id x = msg_id m
                 then x\<lparr>reactions := Some (newReactions_of uid em (or_empty (reactions m)))\<rparr>
                 else x) (messages c)\<rparr>,
            update_where_id (msg_id m)
              (\<lambda>r. r\<lparr>reactions := Some (newReactions_of uid em (or_empty (reactions m)))\<rparr>) b)"
    and "addReaction_from
           (messages (fst (addReaction_from (messages c) True (msg_id m) em (c, b)))) True (msg_id m) em
           (addReaction_from (messages c) True (msg_id m) em (c, b)) =
           (c\<lparr>messages := map (\<lambda>x. if msg_id x = msg_id m
                 then x\<lparr>reactions :=
                   Some (newReactions_of uid em (newReactions_of uid em (or_empty (reactions m))))\<rparr>
                 else x) (messages c)\<rparr>,
            update_where_id (msg_id m)
              (\<lambda>r. r\<lparr>reactions :=
                   Some (newReactions_of uid em (newReactions_of uid em (or_empty (reactions m))))\<rparr>)
              (update_where_id (msg_id m)
                (\<lambda>r. r\<lparr>reactions := Some (newReactions_of uid em (or_empty (reactions m)))\<rparr>) b))"
proof -
  let ?n1 = "newReactions_of uid em (or_empty (reactions m))"
  let ?up1 = "\<lambda>x::message. if msg_id x = msg_id m then x\<lparr>reactions := Some ?n1\<rparr> else x"
  let ?c1 = "c\<lparr>messages := map ?up1 (messages c)\<rparr>"
  let ?b1 = "update_where_id (msg_id m) (\<lambda>r. r\<lparr>reactions := Some ?n1\<rparr>) b"
  have f0: "find (\<lambda>x. msg_id x = msg_id m) (messages c) = Some m"
    using d m by (rule find_msg_id)
  show step1: "addReaction_from (messages c) True (msg_id m) em (c, b) = (?c1, ?b1)"
    using u f0 by (rule addReaction_from_ok)
  have d1: "distinct (map msg_id (messages ?c1))"
  proof -
    have "map msg_id (map ?up1 (messages c)) = map msg_id (messages c)"
      by (rule map_msg_id_upd) simp
    with d show ?thesis by (simp del: map_map)
  qed
  have m1: "m\<lparr>reactions := Some ?n1\<rparr> \<in> set (messages ?c1)"
    using m by (auto simp: image_iff intro!: bexI [of _ m])
  have f1: "find (\<lambda>x. msg_id x = msg_id m) (messages ?c1) = Some (m\<lparr>reactions := Some ?n1\<rparr>)"
    using find_msg_id [OF d1 m1] by simp
  have u1: "user ?c1 = Some uid" using u by simp
  have "addReaction_from (messages ?c1) True (msg_id m) em (?c1, ?b1) =
      (?c1\<lparr>messages := map (\<lambda>x. if msg_id x = msg_id m
                 then x\<lparr>reactions := Some (newReactions_of uid em ?n1)\<rparr> else x) (messages ?c1)\<rparr>,
       update_where_id (msg_id m) (\<lambda>r. r\<lparr>reactions := Some (newReactions_of uid em ?n1)\<rparr>) ?b1)"
    using addReaction_from_ok [OF u1 f1, of em ?b1] by simp
  then show "addReaction_from
           (messages (fst (addReaction_from (messages c) True (msg_id m) em (c, b)))) True (msg_id m) em
           (addReaction_from (messages c) True (msg_id m) em (c, b)) =
           (c\<lparr>messages := map (\<lambda>x. if msg_id x = msg_id m
                 then x\<lparr>reactions := Some (newReactions_of uid em ?n1)\<rparr> else x) (messages c)\<rparr>,
            update_where_id (msg_id m)
              (\<lambda>r. r\<lparr>reactions := Some (newReactions_of uid em ?n1)\<rparr>) ?b1)"
    unfolding step1 by (simp add: upd_twice)
qed

lemma update_where_id_twice_tbl:
  "messages_tbl (update_where_id mid (\<lambda>r. r\<lparr>reactions := Some b\<rparr>)
      (update_where_id mid (\<lambda>r. r\<lparr>reactions := Some a\<rparr>) bk)) =
   map (\<lambda>x. if msg_id x = mid then x\<lparr>reactions := Some b\<rparr> else x) (messages_tbl bk)"
proof -
  have "map (\<lambda>x. if msg_id x = mid then x\<lparr>reactions := Some b\<rparr> else x)
     (map (\<lambda>x. if msg_id x = mid then x\<lparr>reactions := Some a\<rparr> else x) xs) =
   map (\<lambda>x. if msg_id x = mid then x\<lparr>reactions := Some b\<rparr> else x) xs" for xs :: "msg_row list"
    by (induction xs) simp_all
  then show ?thesis by simp
qed


lemma twice_set:
  "distinct rs \<Longrightarrow> set (if r \<in> set rs then remove1 r rs @ [r] else rs) = set rs"
  by auto

text \<open>
  Two calls from one and the same render both work on the list of that render: the
  second removes the entry again instead of putting it back.
\<close>

lemma addReaction_from_same_render:
  "map reactions (messages (fst (addReaction_from (messages bob_in_g) True ''g1'' ''like''
      (addReaction_from (messages bob_in_g) True ''g1'' ''like'' (bob_in_g, backend_g))))) =
   [Some [\<lparr>emoji = ''heart'', user_id = ''alice''\<rparr>]]"
  by (simp add: example_defs addReaction_from_def Let_def newReactions_of_def findIndex_def
      filter_idx_def)

text \<open>
  C1, as the code has it. The signed-in user toggles the same emoji twice in succession
  on a message of the component's list, the second call coming from a render that shows
  the result of the first, and both updates succeed. The list has distinct ids, the
  message's reactions hold no entry twice, and the stored rows of that id hold the
  same entries as the component's copy. Then the first call removes the entry when it is
  there and appends it otherwise, in the component's list and in the stored row, and
  after the second call the component's copy and the stored row hold the same set of
  entries as before; no other message, row or field changes. Within the stored list an
  entry that was present ends up last.
\<close>

theorem addReaction_twice_restores_entries:
  assumes "user c = Some uid"
    and "distinct (map msg_id (messages c))"
    and "m \<in> set (messages c)"
    and "distinct (or_empty (reactions m))"
    and "\<forall>x\<in>set (messages_tbl b). msg_id x = msg_id m \<longrightarrow>
           set (or_empty (reactions x)) = set (or_empty (reactions m))"
  shows "let w1 = addReaction_from (messages c) True (msg_id m) em (c, b);
             w2 = addReaction_from (messages (fst w1)) True (msg_id m) em w1;
             r = \<lparr>emoji = em, user_id = uid\<rparr>;
             rs = or_empty (reactions m)
         in messages (fst w1) =
              map (\<lambda>x. if msg_id x = msg_id m
                        then x\<lparr>reactions := Some (if r \<in> set rs then remove1 r rs else rs @ [r])\<rparr>
                        else x) (messages c)
          \<and> messages_tbl (snd w1) =
              map (\<lambda>x. if msg_id x = msg_id m
                        then x\<lparr>reactions := Some (if r \<in> set rs then remove1 r rs else rs @ [r])\<rparr>
                        else x) (messages_tbl b)
          \<and> messages (fst w2) =
              map (\<lambda>x. if msg_id x = msg_id m
                        then x\<lparr>reactions := Some (if r \<in> set rs then remove1 r rs @ [r] else rs)\<rparr>
                        else x) (messages c)
          \<and> messages_tbl (snd w2) =
              map (\<lambda>x. if msg_id x = msg_id m
                        then x\<lparr>reactions := Some (if r \<in> set rs then remove1 r rs @ [r] else rs)\<rparr>
                        else x) (messages_tbl b)
          \<and> map (\<lambda>x. set (or_empty (reactions x))) (messages (fst w2)) =
              map (\<lambda>x. set (or_empty (reactions x))) (messages c)
          \<and> map (\<lambda>x. set (or_empty (reactions x))) (messages_tbl (snd w2)) =
              map (\<lambda>x. set (or_empty (reactions x))) (messages_tbl b)"
proof -
  let ?r = "\<lparr>emoji = em, user_id = uid\<rparr>"
  let ?rs = "or_empty (reactions m)"
  let ?n1 = "if ?r \<in> set ?rs then remove1 ?r ?rs else ?rs @ [?r]"
  let ?n2 = "if ?r \<in> set ?rs then remove1 ?r ?rs @ [?r] else ?rs"
  let ?w1 = "addReaction_from (messages c) True (msg_id m) em (c, b)"
  let ?w2 = "addReaction_from (messages (fst ?w1)) True (msg_id m) em ?w1"
  have n1: "newReactions_of uid em ?rs = ?n1" by (rule newReactions_of_eq)
  have n2: "newReactions_of uid em (newReactions_of uid em ?rs) = ?n2"
    using assms(4) by (rule newReactions_of_twice)
  note tw = addReaction_from_twice [OF assms(1-3), of em b]
  have a1: "messages (fst ?w1) =
      map (\<lambda>x. if msg_id x = msg_id m then x\<lparr>reactions := Some ?n1\<rparr> else x) (messages c)"
    unfolding tw(1) n1 by simp
  have a2: "messages_tbl (snd ?w1) =
      map (\<lambda>x. if msg_id x = msg_id m then x\<lparr>reactions := Some ?n1\<rparr> else x) (messages_tbl b)"
    unfolding tw(1) n1 by simp
  have b1: "messages (fst ?w2) =
      map (\<lambda>x. if msg_id x = msg_id m then x\<lparr>reactions := Some ?n2\<rparr> else x) (messages c)"
    unfolding tw(2) n2 by simp
  have b2: "messages_tbl (snd ?w2) =
      map (\<lambda>x. if msg_id x = msg_id m then x\<lparr>reactions := Some ?n2\<rparr> else x) (messages_tbl b)"
    unfolding tw(2) n2 snd_conv by (rule update_where_id_twice_tbl)
  have s2: "set ?n2 = set ?rs" using assms(4) by (rule twice_set)
  have same: "x \<in> set (messages c) \<Longrightarrow> msg_id x = msg_id m \<Longrightarrow> x = m" for x
    using assms(2,3) by (meson distinct_map inj_onD)
  have c1: "map (\<lambda>x. set (or_empty (reactions x))) (messages (fst ?w2)) =
        map (\<lambda>x. set (or_empty (reactions x))) (messages c)"
    unfolding b1 map_map
  proof (rule map_cong [OF refl])
    fix x assume x: "x \<in> set (messages c)"
    show "((\<lambda>x. set (or_empty (reactions x))) \<circ>
           (\<lambda>x. if msg_id x = msg_id m then x\<lparr>reactions := Some ?n2\<rparr> else x)) x =
          set (or_empty (reactions x))"
    proof (cases "msg_id x = msg_id m")
      case True
      with x have "x = m" by (rule same)
      then show ?thesis using s2 by simp
    next
      case False
      then show ?thesis by simp
    qed
  qed
  have c2: "map (\<lambda>x. set (or_empty (reactions x))) (messages_tbl (snd ?w2)) =
        map (\<lambda>x. set (or_empty (reactions x))) (messages_tbl b)"
    unfolding b2 map_map
  proof (rule map_cong [OF refl])
    fix x assume x: "x \<in> set (messages_tbl b)"
    show "((\<lambda>x. set (or_empty (reactions x))) \<circ>
           (\<lambda>x. if msg_id x = msg_id m then x\<lparr>reactions := Some ?n2\<rparr> else x)) x =
          set (or_empty (reactions x))"
    proof (cases "msg_id x = msg_id m")
      case True
      with x assms(5) have "set (or_empty (reactions x)) = set ?rs" by blast
      with True show ?thesis using s2 by simp
    next
      case False
      then show ?thesis by simp
    qed
  qed
  from a1 a2 b1 b2 c1 c2 show ?thesis unfolding Let_def by blast
qed

text \<open>Bob toggles \<open>like\<close> twice on \<open>g1\<close>: the row loses his entry and has it again.\<close>

theorem addReaction_twice_restores_entries_witness:
  "map reactions (messages_tbl backend_g) =
     [Some [\<lparr>emoji = ''like'', user_id = ''bob''\<rparr>, \<lparr>emoji = ''heart'', user_id = ''alice''\<rparr>]]
   \<and> map reactions (messages_tbl (snd (addReaction_from (messages bob_in_g) True ''g1'' ''like''
       (bob_in_g, backend_g)))) =
     [Some [\<lparr>emoji = ''heart'', user_id = ''alice''\<rparr>]]
   \<and> map (\<lambda>x. set (or_empty (reactions x)))
       (messages_tbl (snd (addReaction_from
          (messages (fst (addReaction_from (messages bob_in_g) True ''g1'' ''like'' (bob_in_g, backend_g))))
          True ''g1'' ''like''
          (addReaction_from (messages bob_in_g) True ''g1'' ''like'' (bob_in_g, backend_g))))) =
     map (\<lambda>x. set (or_empty (reactions x))) (messages_tbl backend_g)"
proof -
  let ?m = "with_profile row_g1 (profile_of [alice, bob, carol] ''alice'')"
  have h1: "user bob_in_g = Some ''bob''" by (simp add: example_defs)
  have h2: "distinct (map msg_id (messages bob_in_g))" by (simp add: example_defs)
  have h3: "?m \<in> set (messages bob_in_g)" by (simp add: example_defs)
  have h4: "distinct (or_empty (reactions ?m))" by (simp add: example_defs)
  have h5: "\<forall>x\<in>set (messages_tbl backend_g). msg_id x = msg_id ?m \<longrightarrow>
      set (or_empty (reactions x)) = set (or_empty (reactions ?m))"
    by (simp add: example_defs)
  have i: "msg_id ?m = ''g1''" by (simp add: with_profile_def row_g1_def)
  have e0: "map reactions (messages_tbl backend_g) =
     [Some [\<lparr>emoji = ''like'', user_id = ''bob''\<rparr>, \<lparr>emoji = ''heart'', user_id = ''alice''\<rparr>]]"
    by (simp add: example_defs)
  have e1: "map reactions (messages_tbl (snd (addReaction_from (messages bob_in_g) True ''g1'' ''like''
       (bob_in_g, backend_g)))) = [Some [\<lparr>emoji = ''heart'', user_id = ''alice''\<rparr>]]"
    by (simp add: example_defs addReaction_from_def Let_def newReactions_of_def findIndex_def
        filter_idx_def)
  from addReaction_twice_restores_entries [OF h1 h2 h3 h4 h5, of "''like''", unfolded Let_def i]
  have "map (\<lambda>x. set (or_empty (reactions x)))
       (messages_tbl (snd (addReaction_from
          (messages (fst (addReaction_from (messages bob_in_g) True ''g1'' ''like'' (bob_in_g, backend_g))))
          True ''g1'' ''like''
          (addReaction_from (messages bob_in_g) True ''g1'' ''like'' (bob_in_g, backend_g))))) =
     map (\<lambda>x. set (or_empty (reactions x))) (messages_tbl backend_g)" by blast
  with e0 e1 show ?thesis by blast
qed

text \<open>
  The claim as stated, that the message's reaction state is what it was before, fails
  for the stored row: the toggle writes the component's copy of the list to the row.
  Carol has added \<open>wow\<close>, and the change has not reached Bob's list yet. Bob toggles \<open>like\<close>
  twice: the row held the entries of Bob, Alice and Carol, and holds those of Alice and
  Bob afterwards.
\<close>

theorem addReaction_twice_counterexample:
  "map reactions (messages_tbl
      (snd (addReaction_from (messages carol_in_g) True ''g1'' ''wow'' (carol_in_g, backend_g)))) =
     [Some [\<lparr>emoji = ''like'', user_id = ''bob''\<rparr>, \<lparr>emoji = ''heart'', user_id = ''alice''\<rparr>,
            \<lparr>emoji = ''wow'', user_id = ''carol''\<rparr>]]
   \<and> map reactions (messages_tbl (snd (addReaction_from
          (messages (fst (addReaction_from (messages bob_in_g) True ''g1'' ''like''
             (bob_in_g, snd (addReaction_from (messages carol_in_g) True ''g1'' ''wow'' (carol_in_g, backend_g))))))
          True ''g1'' ''like''
          (addReaction_from (messages bob_in_g) True ''g1'' ''like''
             (bob_in_g, snd (addReaction_from (messages carol_in_g) True ''g1'' ''wow'' (carol_in_g, backend_g))))))) =
     [Some [\<lparr>emoji = ''heart'', user_id = ''alice''\<rparr>, \<lparr>emoji = ''like'', user_id = ''bob''\<rparr>]]"
  by (simp add: example_defs addReaction_from_def Let_def newReactions_of_def findIndex_def filter_idx_def)

subsection \<open>C4: deleting a message\<close>

text \<open>
  C4, as the code has it. A successful \<open>confirmDeleteMessage\<close> removes the row: afterwards
  neither the table nor the component's list holds a message with the deleted id, every
  other row and message is kept as it is, and the feed carries one DELETE change with the
  id for each removed row, from which the subscription of any client drops the message of
  that id. No record of the deleted message is kept.
\<close>

theorem confirmDeleteMessage_removes_row:
  assumes "messageToDelete c = Some md"
  shows "messages_tbl (snd (confirmDeleteMessage True (c, b))) =
           filter (\<lambda>r. msg_id r \<noteq> msg_id md) (messages_tbl b)
    \<and> messages (fst (confirmDeleteMessage True (c, b))) =
           filter (\<lambda>m. msg_id m \<noteq> msg_id md) (messages c)
    \<and> msg_id md \<notin> msg_id ` set (messages_tbl (snd (confirmDeleteMessage True (c, b))))
    \<and> msg_id md \<notin> msg_id ` set (messages (fst (confirmDeleteMessage True (c, b))))
    \<and> feed (snd (confirmDeleteMessage True (c, b))) =
           feed b @ map (\<lambda>r. DELETE (msg_id r)) (filter (\<lambda>r. msg_id r = msg_id md) (messages_tbl b))
    \<and> msg_id md \<notin> msg_id ` set (handle_change ps (DELETE (msg_id md)) ms)"
  using assms
  by (auto simp: confirmDeleteMessage_def Let_def delete_where_id_def on_delete_def)

text \<open>Bob deletes his message \<open>m2\<close>.\<close>

theorem confirmDeleteMessage_removes_row_witness:
  "messageToDelete (bob_client2\<lparr>messageToDelete := Some (with_profile row_m2 None)\<rparr>) =
     Some (with_profile row_m2 None)
   \<and> messages_tbl (snd (confirmDeleteMessage True
        (bob_client2\<lparr>messageToDelete := Some (with_profile row_m2 None)\<rparr>, backend_x2))) = [row_m1]
   \<and> feed (snd (confirmDeleteMessage True
        (bob_client2\<lparr>messageToDelete := Some (with_profile row_m2 None)\<rparr>, backend_x2))) = [DELETE ''m2'']"
proof -
  have h: "messageToDelete (bob_client2\<lparr>messageToDelete := Some (with_profile row_m2 None)\<rparr>) =
     Some (with_profile row_m2 None)" by simp
  from confirmDeleteMessage_removes_row [OF h, of backend_x2]
  show ?thesis by (simp add: example_defs)
qed

text \<open>
  The claim as stated, that a record with the deleted id still exists, fails there: the
  table and the list hold \<open>m1\<close> only.
\<close>

theorem confirmDeleteMessage_counterexample:
  "map msg_id (messages_tbl (snd (confirmDeleteMessage True
        (bob_client2\<lparr>messageToDelete := Some (with_profile row_m2 None)\<rparr>, backend_x2)))) = [''m1'']
   \<and> map msg_id (messages (fst (confirmDeleteMessage True
        (bob_client2\<lparr>messageToDelete := Some (with_profile row_m2 None)\<rparr>, backend_x2)))) = [''m1'']"
  by (simp add: example_defs confirmDeleteMessage_def Let_def delete_where_id_def)

subsection \<open>C5: declining and ending a call\<close>

text \<open>
  C5, as the code has it. Declining clears the pending call of the declining client and
  nothing else: the backend is as before, so nothing is sent to anybody. Ending a call,
  for a signed-in user with a conversation selected, sends one \<open>call_ended\<close> signal on the
  channel of each other participant of the selected conversation as the client has it
  loaded (none when the client does not have that conversation), and then clears the
  client's call state.
\<close>

theorem declineCall_silent_endCall_signals:
  assumes "user c = Some uid"
    and "selectedConversation c = Some conv" and "conv \<noteq> []"
  shows "perform url Decline_call (c, b) = (c\<lparr>incomingCall := None\<rparr>, b)
    \<and> sent (snd (perform url End_call (c, b))) =
        sent b @ map (\<lambda>p. (''calls-'' @ p_user_id p, Call_ended uid conv))
                   (case find (\<lambda>cv. conv_id cv = conv) (conversations c) of
                      None \<Rightarrow> []
                    | Some cv \<Rightarrow> filter (\<lambda>p. p_user_id p \<noteq> uid) (or_empty (participants cv)))
    \<and> fst (perform url End_call (c, b)) =
        c\<lparr>showVideoCall := False, videoCallUrl := [], incomingCall := None\<rparr>"
  using assms
  by (auto simp: declineCall_def endCall_def otherParticipants_of_def getCurrentConversation_def
      Let_def or_empty_def split: option.splits)

text \<open>Alice ends the call: Bob's channel gets the signal.\<close>

theorem declineCall_silent_endCall_signals_witness:
  "sent (snd (perform (\<lambda>n. n) End_call (alice_calling, backend_x))) =
     [(''calls-bob'', Call_ended ''alice'' ''x'')]
   \<and> incomingCall (fst (perform (\<lambda>n. n) End_call (alice_calling, backend_x))) = None"
  using declineCall_silent_endCall_signals [of alice_calling "''alice''" "''x''" "\<lambda>n. n" backend_x]
  by (simp add: example_defs)

text \<open>
  The claim as stated, that a decline is broadcast to the other participants and reaches
  the caller, fails: Bob declines Alice's call and nothing is sent.
\<close>

theorem declineCall_counterexample:
  "p_user_id (caller call_c1) = ''alice''
   \<and> incomingCall bob_ringing = Some call_c1
   \<and> sent (snd (perform (\<lambda>n. n) Decline_call (bob_ringing, backend_x))) = []"
  by (simp add: example_defs declineCall_def)

subsection \<open>C6: sending an image\<close>

text \<open>
  The model accepts what the source accepts: Bob's image of 1 MiB is stored under his id,
  the instant and the extension of its name, and a row of type \<open>image\<close> is inserted.
\<close>

lemma uploadImage_accepts:
  "messages_tbl (snd (uploadImage True True (\<lambda>n. ''https://cdn/'' @ n) ''m3'' 7 (Some small_png)
      (bob_client, backend_x))) =
   [row_m1, new_row ''m3'' 7 ''x'' ''bob'' None (Some ''https://cdn/bob/7.png'') Image]
   \<and> chat_images (snd (uploadImage True True (\<lambda>n. ''https://cdn/'' @ n) ''m3'' 7 (Some small_png)
      (bob_client, backend_x))) = [''bob/7.png'']"
proof -
  have d: "show_int 7 = ''7''" by code_simp
  have e: "fileExt_of ''cat.small.png'' = ''png''" by code_simp
  show ?thesis
    by (simp add: example_defs uploadImage_def Let_def updateUserPresence_def insert_message_def d e)
qed

text \<open>
  C6. When the chosen file is larger than 10 MiB (10 * 1024 * 1024 bytes) or its type does
  not start with \<open>image/\<close>, \<open>uploadImage\<close> returns before it touches anything: the component
  state and the whole backend (the table, the bucket, the change feed, the presence
  stamps, the signals) are as before, whatever the outcomes of the upload and the insert
  would have been.
\<close>

theorem uploadImage_rejects:
  assumes "10 * 1024 * 1024 < file_size fl \<or> \<not> prefix ''image/'' (file_type fl)"
  shows "uploadImage upload_ok insert_ok url mid now (Some fl) (c, b) = (c, b)
    \<and> perform url (Upload_image upload_ok insert_ok mid now (Some fl)) (c, b) = (c, b)"
  using assms by (auto simp: uploadImage_def Let_def split: option.splits)

text \<open>Bob picks an image of 11 MiB, then a text file: nothing changes.\<close>

theorem uploadImage_rejects_witness:
  "10 * 1024 * 1024 < file_size big_png
   \<and> uploadImage True True (\<lambda>n. ''https://cdn/'' @ n) ''m3'' 7 (Some big_png) (bob_client, backend_x) =
       (bob_client, backend_x)
   \<and> \<not> prefix ''image/'' (file_type notes_txt)
   \<and> uploadImage True True (\<lambda>n. ''https://cdn/'' @ n) ''m3'' 7 (Some notes_txt) (bob_client, backend_x) =
       (bob_client, backend_x)"
proof -
  have h: "10 * 1024 * 1024 < file_size big_png \<or> \<not> prefix ''image/'' (file_type big_png)"
    by (simp add: big_png_def)
  have k: "10 * 1024 * 1024 < file_size notes_txt \<or> \<not> prefix ''image/'' (file_type notes_txt)"
    by (simp add: notes_txt_def)
  from uploadImage_rejects [OF h, of True True "\<lambda>n. ''https://cdn/'' @ n" "''m3''" 7 bob_client backend_x]
    uploadImage_rejects [OF k, of True True "\<lambda>n. ''https://cdn/'' @ n" "''m3''" 7 bob_client backend_x]
  show ?thesis by (simp add: big_png_def notes_txt_def)
qed

subsection \<open>C7: presence\<close>

text \<open>The set of online users is a cell of the component state; only a fetch writes it.\<close>

lemma onlineUsers_advance: "onlineUsers (advance t c) = onlineUsers c"
proof -
  have cb: "onlineUsers (timer_callback p x) = onlineUsers x" for p x
    by (simp add: timer_callback_def split: option.splits)
  have f: "onlineUsers (fold (\<lambda>tp. timer_callback (snd tp)) xs x) = onlineUsers x"
    for xs :: "(int \<times> incoming_call) list" and x
    by (induction xs arbitrary: x) (simp_all add: cb)
  show ?thesis unfolding advance_def f by simp
qed

lemma onlineUsers_perform: "onlineUsers (fst (perform url a (c, b))) = onlineUsers c"
proof (cases a)
  case (Send_message ok mid now)
  then show ?thesis by (simp add: sendMessage_def Let_def split: option.splits)
next
  case (Upload_image upload_ok insert_ok mid now f)
  then show ?thesis by (simp add: uploadImage_def Let_def split: option.splits)
next
  case (Mark_seen s ok)
  then show ?thesis by simp
next
  case (Add_reaction ok mid em)
  then show ?thesis by (simp add: addReaction_def Let_def split: option.splits)
next
  case (Save_edit ok)
  then show ?thesis by (simp add: saveEditMessage_def cancelEdit_def Let_def split: option.splits)
next
  case (Confirm_delete ok)
  then show ?thesis by (simp add: confirmDeleteMessage_def Let_def split: option.splits)
next
  case (Start_video_call roomName cid ok mid now)
  then show ?thesis by (simp add: startVideoCall_def Let_def split: option.splits)
next
  case Accept_call
  then show ?thesis by (simp add: acceptCall_def split: option.splits)
next
  case Decline_call
  then show ?thesis by (simp add: declineCall_def)
next
  case End_call
  then show ?thesis by (simp add: endCall_def Let_def split: option.splits)
next
  case (Update_presence now)
  then show ?thesis by simp
qed

text \<open>
  C7, as the code has it. A fetch at the instant \<open>now\<close> that succeeds stores as online
  exactly the users with a profile whose \<open>last_seen\<close> is set and at most 5 minutes
  (300000 ms) before \<open>now\<close>. \<open>isUserOnline\<close> reads that stored set: the passing of time
  and the client's own actions leave its answer as the last fetch made it. There is no
  expiry of the stored set.
\<close>

theorem fetchOnlineUsers_window:
  "(isUserOnline (fetchOnlineUsers True now b c) uid \<longleftrightarrow>
      (\<exists>p\<in>set (profiles_tbl b). p_user_id p = uid \<and> (\<exists>t. last_seen p = Some t \<and> now - t \<le> 5 * 60 * 1000)))
   \<and> isUserOnline (advance later (fetchOnlineUsers ok now b c)) uid =
       isUserOnline (fetchOnlineUsers ok now b c) uid
   \<and> isUserOnline (fst (perform url a (c, b'))) uid = isUserOnline c uid"
proof -
  have "(isUserOnline (fetchOnlineUsers True now b c) uid \<longleftrightarrow>
      (\<exists>p\<in>set (profiles_tbl b). p_user_id p = uid \<and> (\<exists>t. last_seen p = Some t \<and> now - t \<le> 5 * 60 * 1000)))"
    by (auto simp: isUserOnline_def fetchOnlineUsers_def Let_def image_iff split: option.splits)
  then show ?thesis
    by (simp add: isUserOnline_def onlineUsers_advance onlineUsers_perform)
qed

text \<open>
  Alice was last seen at 0. A fetch at 5 minutes reports her online, a fetch one
  millisecond later does not; Bob, who was never seen, is not online.
\<close>

theorem fetchOnlineUsers_window_witness:
  "isUserOnline (fetchOnlineUsers True 300000 backend_x bob_client) ''alice''
   \<and> \<not> isUserOnline (fetchOnlineUsers True 300001 backend_x bob_client) ''alice''
   \<and> \<not> isUserOnline (fetchOnlineUsers True 300000 backend_x bob_client) ''bob''"
  using fetchOnlineUsers_window [of 300000 backend_x bob_client "''alice''"]
    fetchOnlineUsers_window [of 300001 backend_x bob_client "''alice''"]
    fetchOnlineUsers_window [of 300000 backend_x bob_client "''bob''"]
  by (simp add: example_defs)

text \<open>
  The claim as stated, that at every query time the answer is whether \<open>last_seen\<close> is at
  most 5 minutes old, fails: after a fetch at 0, with no fetch since, Alice is still
  reported online at 10 minutes.
\<close>

theorem isUserOnline_stale_counterexample:
  "last_seen alice = Some 0
   \<and> isUserOnline (advance 600000 (fetchOnlineUsers True 0 backend_x bob_client)) ''alice''
   \<and> \<not> (600000 - 0 \<le> (5 * 60 * 1000 :: int))"
  by (simp add: example_defs isUserOnline_def fetchOnlineUsers_def Let_def advance_def)

subsection \<open>C8: the 30 seconds of an incoming call\<close>




lemma advance_resolved:
  "incomingCall c = None \<Longrightarrow> timers c = [(due, p)] \<Longrightarrow> toasts (advance t2 c) = toasts c"
  by (simp add: advance_def timer_callback_def)




subsection \<open>C9: editing a message\<close>

text \<open>
  C9, as the code has it. A successful \<open>saveEditMessage\<close> replaces the content of the edited
  message by the trimmed text, in the table and in the component's list, and changes
  nothing else: \<open>created_at\<close> and every other field of every message are as before. The
  UPDATE handler of the other clients leaves \<open>created_at\<close> alone as well. A message has no
  field that records an edit.
\<close>

theorem saveEditMessage_replaces_content_only:
  assumes "editingMessage c = Some em" and "trim (editContent c) \<noteq> []"
  shows "messages_tbl (snd (saveEditMessage True (c, b))) =
           map (\<lambda>r. if msg_id r = msg_id em then r\<lparr>content := Some (trim (editContent c))\<rparr> else r)
             (messages_tbl b)
    \<and> messages (fst (saveEditMessage True (c, b))) =
           map (\<lambda>m. if msg_id m = msg_id em then m\<lparr>content := Some (trim (editContent c))\<rparr> else m)
             (messages c)
    \<and> map created_at (messages_tbl (snd (saveEditMessage True (c, b)))) = map created_at (messages_tbl b)
    \<and> map created_at (messages (fst (saveEditMessage True (c, b)))) = map created_at (messages c)
    \<and> map created_at (on_update u ms) = map created_at ms"
proof -
  let ?t = "trim (editContent c)"
  have w: "saveEditMessage True (c, b) =
      (cancelEdit (c\<lparr>messages :=
          map (\<lambda>m. if msg_id m = msg_id em then m\<lparr>content := Some ?t\<rparr> else m) (messages c)\<rparr>),
       update_where_id (msg_id em) (\<lambda>r. r\<lparr>content := Some ?t\<rparr>) b)"
    using assms by (simp add: saveEditMessage_def Let_def)
  have 1: "messages_tbl (snd (saveEditMessage True (c, b))) =
      map (\<lambda>r. if msg_id r = msg_id em then r\<lparr>content := Some ?t\<rparr> else r) (messages_tbl b)"
    unfolding w by simp
  have 2: "messages (fst (saveEditMessage True (c, b))) =
      map (\<lambda>m. if msg_id m = msg_id em then m\<lparr>content := Some ?t\<rparr> else m) (messages c)"
    unfolding w by (simp add: cancelEdit_def)
  have 3: "map created_at (messages_tbl (snd (saveEditMessage True (c, b)))) = map created_at (messages_tbl b)"
    unfolding 1 by (induction "messages_tbl b") simp_all
  have 4: "map created_at (messages (fst (saveEditMessage True (c, b)))) = map created_at (messages c)"
    unfolding 2 by (induction "messages c") simp_all
  have 5: "map created_at (on_update u ms) = map created_at ms"
    unfolding on_update_def by (induction ms) simp_all
  from 1 2 3 4 5 show ?thesis by blast
qed

text \<open>Bob edits \<open>m2\<close>.\<close>

theorem saveEditMessage_replaces_content_only_witness:
  "messages_tbl (snd (saveEditMessage True
      (bob_client2\<lparr>editingMessage := Some (with_profile row_m2 None), editContent := '' bye ''\<rparr>,
       backend_x2))) = [row_m1, row_m2\<lparr>content := Some ''bye''\<rparr>]"
proof -
  have t: "trim '' bye '' = ''bye''" by code_simp
  have h1: "editingMessage (bob_client2\<lparr>editingMessage := Some (with_profile row_m2 None),
      editContent := '' bye ''\<rparr>) = Some (with_profile row_m2 None)" by simp
  have h2: "trim (editContent (bob_client2\<lparr>editingMessage := Some (with_profile row_m2 None),
      editContent := '' bye ''\<rparr>)) \<noteq> []" by (simp add: t)
  from saveEditMessage_replaces_content_only [OF h1 h2, of backend_x2]
  show ?thesis by (simp add: t example_defs)
qed

text \<open>
  The claim as stated, that an edit moves a separate \<open>edited_at\<close>, fails: this is the whole
  row after Bob's edit, and it differs from the row before in \<open>content\<close> only.
\<close>

theorem saveEditMessage_counterexample:
  "messages_tbl (snd (saveEditMessage True
      (bob_client2\<lparr>editingMessage := Some (with_profile row_m2 None), editContent := ''bye''\<rparr>,
       backend_x2))) =
   [row_m1,
    \<lparr>msg_id = ''m2'', content = Some ''bye'', image_url = None, message_type = Text,
     created_at = 2, sender_id = ''bob'', conversation_id = ''x'',
     reactions = None, seen_by = Some []\<rparr>]"
proof -
  have t: "trim ''bye'' = ''bye''" by code_simp
  show ?thesis
    by (simp add: t example_defs saveEditMessage_def Let_def)
qed

subsection \<open>C10: no message twice in the list\<close>

lemma msg_id_with_profile [simp]: "msg_id (with_profile r p) = msg_id r"
  by (simp add: with_profile_def)

lemma on_insert_distinct:
  "distinct (map msg_id ms) \<Longrightarrow> distinct (map msg_id (on_insert r p ms))"
  by (auto simp: on_insert_def Let_def)

lemma on_update_ids: "map msg_id (on_update u ms) = map msg_id ms"
  unfolding on_update_def by (rule map_msg_id_upd) simp

lemma on_delete_distinct:
  "distinct (map msg_id ms) \<Longrightarrow> distinct (map msg_id (on_delete i ms))"
  unfolding on_delete_def by (rule distinct_map_filter)

lemma handle_change_distinct:
  "distinct (map msg_id ms) \<Longrightarrow> distinct (map msg_id (handle_change ps ch ms))"
  by (cases ch) (simp_all add: on_insert_distinct on_update_ids on_delete_distinct)

lemma fold_handle_change_distinct:
  "distinct (map msg_id ms) \<Longrightarrow> distinct (map msg_id (fold (handle_change ps) chs ms))"
  by (induction chs arbitrary: ms) (simp_all add: handle_change_distinct)

lemma distinct_map_sort_key:
  "distinct (map f xs) \<Longrightarrow> distinct (map f (sort_key k xs))"
proof -
  assume d: "distinct (map f xs)"
  have "mset (map f (sort_key k xs)) = mset (map f xs)" by simp
  then show ?thesis using d by (metis distinct_count_atmost_1 set_mset_mset)
qed

lemma fetchMessages_distinct:
  assumes "distinct (map msg_id (messages_tbl b))" and "distinct (map msg_id (messages c))"
  shows "distinct (map msg_id (messages (fetchMessages ok b c)))"
proof (cases "falsy (selectedConversation c) \<or> \<not> ok")
  case True
  with assms(2) show ?thesis by (auto simp: fetchMessages_def)
next
  case False
  let ?rows = "sort_key created_at
      (filter (\<lambda>r. Some (conversation_id r) = selectedConversation c) (messages_tbl b))"
  have "distinct (map msg_id ?rows)"
    using assms(1) by (intro distinct_map_sort_key distinct_map_filter)
  moreover have "map msg_id (messages (fetchMessages ok b c)) = map msg_id ?rows"
    using False by (simp add: fetchMessages_def Let_def comp_def)
  ultimately show ?thesis by simp
qed

lemma perform_messages_distinct:
  assumes d: "distinct (map msg_id (messages c))"
  shows "distinct (map msg_id (messages (fst (perform url a (c, b)))))"
proof (cases a)
  case (Send_message ok mid now)
  then show ?thesis using d by (simp add: sendMessage_def Let_def split: option.splits)
next
  case (Upload_image upload_ok insert_ok mid now f)
  then show ?thesis using d by (simp add: uploadImage_def Let_def split: option.splits)
next
  case (Mark_seen s ok)
  then show ?thesis using d by simp
next
  case (Add_reaction ok mid em)
  have "map msg_id (messages (fst (addReaction ok mid em (c, b)))) = map msg_id (messages c)"
    by (simp add: addReaction_def Let_def comp_def split: option.splits)
  with Add_reaction d show ?thesis by simp
next
  case (Save_edit ok)
  have "map msg_id (messages (fst (saveEditMessage ok (c, b)))) = map msg_id (messages c)"
    by (simp add: saveEditMessage_def cancelEdit_def Let_def comp_def split: option.splits)
  with Save_edit d show ?thesis by simp
next
  case (Confirm_delete ok)
  then show ?thesis using d
    by (simp add: confirmDeleteMessage_def Let_def distinct_map_filter split: option.splits)
next
  case (Start_video_call roomName cid ok mid now)
  then show ?thesis using d by (simp add: startVideoCall_def Let_def split: option.splits)
next
  case Accept_call
  then show ?thesis using d by (simp add: acceptCall_def split: option.splits)
next
  case Decline_call
  then show ?thesis using d by (simp add: declineCall_def)
next
  case End_call
  then show ?thesis using d by (simp add: endCall_def Let_def split: option.splits)
next
  case (Update_presence now)
  then show ?thesis using d by simp
qed

text \<open>
  C10. When the ids of the component's list are pairwise distinct (as they are in the
  empty list the component starts with), they are so after an INSERT change, after any
  sequence of changes of the feed, after a fetch from a table with unique ids followed by
  any such sequence, and after any action of the user. An INSERT change for an id
  that the list already holds leaves the list as it is.
\<close>

theorem message_ids_stay_distinct:
  assumes "distinct (map msg_id (messages c))"
  shows "distinct (map msg_id (on_insert r p (messages c)))
    \<and> (msg_id r \<in> msg_id ` set (messages c) \<longrightarrow> on_insert r p (messages c) = messages c)
    \<and> distinct (map msg_id (fold (handle_change ps) chs (messages c)))
    \<and> (distinct (map msg_id (messages_tbl b)) \<longrightarrow>
         distinct (map msg_id (fold (handle_change ps) chs (messages (fetchMessages ok b c)))))
    \<and> distinct (map msg_id (messages (fst (perform url a (c, b)))))"
proof -
  have 2: "msg_id r \<in> msg_id ` set (messages c) \<longrightarrow> on_insert r p (messages c) = messages c"
    by (auto simp: on_insert_def Let_def)
  have 4: "distinct (map msg_id (messages_tbl b)) \<longrightarrow>
         distinct (map msg_id (fold (handle_change ps) chs (messages (fetchMessages ok b c))))"
    using assms by (auto intro!: fold_handle_change_distinct fetchMessages_distinct)
  have 5: "distinct (map msg_id (messages (fst (perform url a (c, b)))))"
    using assms by (rule perform_messages_distinct)
  from assms 2 4 5 show ?thesis
    by (simp add: on_insert_distinct fold_handle_change_distinct)
qed

text \<open>
  Bob's list holds \<open>m1\<close> from the fetch. The feed delivers \<open>m1\<close> again and \<open>m2\<close> twice: the
  list holds each once.
\<close>

theorem message_ids_stay_distinct_witness:
  "distinct (map msg_id (messages bob_client))
   \<and> map msg_id (fold (handle_change [alice, bob]) [INSERT row_m1, INSERT row_m2, INSERT row_m2]
        (messages bob_client)) = [''m1'', ''m2'']
   \<and> distinct (map msg_id (fold (handle_change [alice, bob]) [INSERT row_m1, INSERT row_m2, INSERT row_m2]
        (messages bob_client)))"
proof -
  have h: "distinct (map msg_id (messages bob_client))" by (simp add: example_defs)
  have e: "map msg_id (fold (handle_change [alice, bob]) [INSERT row_m1, INSERT row_m2, INSERT row_m2]
        (messages bob_client)) = [''m1'', ''m2'']"
    by (simp add: example_defs on_insert_def Let_def)
  from message_ids_stay_distinct [OF h, of _ _ "[alice, bob]" "[INSERT row_m1, INSERT row_m2, INSERT row_m2]"]
  have "distinct (map msg_id (fold (handle_change [alice, bob]) [INSERT row_m1, INSERT row_m2, INSERT row_m2]
        (messages bob_client)))" by blast
  with h e show ?thesis by blast
qed

end
